theory Spec2Isabelle
  imports Main "HOL-Library.Word"
begin

section \<open>JavaScript strings\<close>

text \<open>
  A JavaScript string is a sequence of UTF-16 code units; \<open>length\<close>, \<open>substring\<close>,
  \<open>includes\<close> and regular expressions without the \<open>u\<close> flag all work on code units.
  The source's string literals are ASCII; \<open>lit\<close> embeds them.
\<close>

type_synonym code_unit = "16 word"
type_synonym jsstring = "code_unit list"

definition lit :: "string \<Rightarrow> jsstring" where
  "lit s = map of_char s"

text \<open>
  \<open>String.prototype.trim\<close> removes WhiteSpace and LineTerminator code points from both
  ends: TAB, LF, VT, FF, CR, SP, NBSP, U+1680, U+2000..U+200A, U+2028, U+2029, U+202F,
  U+205F, U+3000 and U+FEFF.
\<close>

definition isWhiteSpace :: "code_unit \<Rightarrow> bool" where
  "isWhiteSpace c \<longleftrightarrow>
     c = 9 \<or> c = 10 \<or> c = 11 \<or> c = 12 \<or> c = 13 \<or> c = 32 \<or> c = 160 \<or> c = 5760 \<or>
     (8192 \<le> c \<and> c \<le> 8202) \<or> c = 8232 \<or> c = 8233 \<or> c = 8239 \<or> c = 8287 \<or>
     c = 12288 \<or> c = 65279"

definition trim :: "jsstring \<Rightarrow> jsstring" where
  "trim s = rev (dropWhile isWhiteSpace (rev (dropWhile isWhiteSpace s)))"

text \<open>
  \<open>RegExp.prototype.test\<close> of a pattern without anchors and without the \<open>g\<close> flag tries
  the pattern at every start index, from 0 to the length of the input. \<open>searchFrom m s\<close>
  does so, \<open>m\<close> being the match of the pattern at the head of a suffix.
\<close>

fun searchFrom :: "(jsstring \<Rightarrow> bool) \<Rightarrow> jsstring \<Rightarrow> bool" where
  "searchFrom m [] = m []"
| "searchFrom m (c # cs) = (m (c # cs) \<or> searchFrom m cs)"

text \<open>
  With flag \<open>i\<close> and without flag \<open>u\<close> two code units match when their Canonicalize
  images agree. Canonicalize upper-cases, and leaves a unit of value 128 or more alone
  whenever its upper case would be below 128. Against the ASCII letters of the patterns
  of this program the result is therefore the comparison of the ASCII upper cases.
\<close>

definition toUpperAscii :: "code_unit \<Rightarrow> code_unit" where
  "toUpperAscii c = (if 97 \<le> c \<and> c \<le> 122 then c - 32 else c)"

fun matchIgnoreCase :: "jsstring \<Rightarrow> jsstring \<Rightarrow> bool" where
  "matchIgnoreCase [] s = True"
| "matchIgnoreCase (p # ps) [] = False"
| "matchIgnoreCase (p # ps) (c # cs) =
     (toUpperAscii p = toUpperAscii c \<and> matchIgnoreCase ps cs)"

fun startsWith :: "jsstring \<Rightarrow> jsstring \<Rightarrow> bool" where
  "startsWith [] s = True"
| "startsWith (p # ps) [] = False"
| "startsWith (p # ps) (c # cs) = (p = c \<and> startsWith ps cs)"

definition includes_js :: "jsstring \<Rightarrow> jsstring \<Rightarrow> bool" where
  "includes_js needle s = searchFrom (startsWith needle) s"

definition isUpperAZ :: "code_unit \<Rightarrow> bool" where
  "isUpperAZ c \<longleftrightarrow> 65 \<le> c \<and> c \<le> 90"

fun capsRunAt :: "jsstring \<Rightarrow> bool" where
  "capsRunAt (a # b # c # d # rest) = (isUpperAZ a \<and> isUpperAZ b \<and> isUpperAZ c \<and> isUpperAZ d)"
| "capsRunAt _ = False"

section \<open>JavaScript values\<close>

text \<open>
  The value built by the object literal of \<open>getDemoAnalysis\<close> and the value that
  \<open>response.json()\<close> yields are JSON values. An object is the list of its properties in
  insertion order; reading a property takes the last entry of that name, as an object
  literal and \<open>JSON.parse\<close> do. The numbers this program builds are integers.
\<close>

datatype json =
    JNull
  | JBool bool
  | JNum int
  | JStr jsstring
  | JArr "json list"
  | JObj "(jsstring \<times> json) list"

fun getProp :: "(jsstring \<times> json) list \<Rightarrow> jsstring \<Rightarrow> json option" where
  "getProp [] k = None"
| "getProp ((k', v) # kvs) k =
     (case getProp kvs k of
        Some v' \<Rightarrow> Some v'
      | None \<Rightarrow> if k' = k then Some v else None)"

fun field :: "string \<Rightarrow> json \<Rightarrow> json option" where
  "field k (JObj kvs) = getProp kvs (lit k)"
| "field k _ = None"

abbreviation str :: "string \<Rightarrow> json" where
  "str s \<equiv> JStr (lit s)"

abbreviation entry :: "string \<Rightarrow> json \<Rightarrow> jsstring \<times> json" where
  "entry k v \<equiv> (lit k, v)"

section \<open>The demo analysis generator\<close>

text \<open>The regular expression \<open>/breaking|shocking|secret|exclusive|banned|hidden|urgent/i\<close>.\<close>

definition emotionalWords :: "string list" where
  "emotionalWords =
     [''breaking'', ''shocking'', ''secret'', ''exclusive'', ''banned'', ''hidden'', ''urgent'']"

definition hasEmotionalWords :: "jsstring \<Rightarrow> bool" where
  "hasEmotionalWords content =
     searchFrom (\<lambda>t. list_ex (\<lambda>w. matchIgnoreCase (lit w) t) emotionalWords) content"

text \<open>The regular expression \<open>/[A-Z]{4,}/\<close>.\<close>

definition hasAllCaps :: "jsstring \<Rightarrow> bool" where
  "hasAllCaps content = searchFrom capsRunAt content"

text \<open>The variable \<open>riskScore\<close> after its four conditional updates.\<close>

definition riskScore :: "jsstring \<Rightarrow> int" where
  "riskScore content =
     (let r0 = 30;
          r1 = (if hasEmotionalWords content then r0 + 25 else r0);
          r2 = (if hasAllCaps content then r1 + 20 else r1);
          r3 = (if includes_js (lit ''!'') content then r2 + 10 else r2);
          r4 = (if int (length content) < 100 then r3 - 10 else r3)
      in r4)"

definition riskLevel :: "int \<Rightarrow> string" where
  "riskLevel score = (if score > 70 then ''HIGH'' else if score > 50 then ''MEDIUM'' else ''LOW'')"

definition credibility :: "int \<Rightarrow> string" where
  "credibility score =
     (if score > 70 then ''QUESTIONABLE'' else if score > 50 then ''QUESTIONABLE'' else ''RELIABLE'')"

text \<open>
  \<open>getDemoAnalysis now content\<close>: \<open>now\<close> is the value of \<open>new Date().toISOString()\<close> at
  the call, the one input of the function besides \<open>content\<close>.
\<close>

definition getDemoAnalysis :: "jsstring \<Rightarrow> jsstring \<Rightarrow> json" where
  "getDemoAnalysis now content =
    (let contentLength = int (length content);
         hasURL = includes_js (lit ''http'') content;
         emotional = hasEmotionalWords content;
         score = riskScore content
     in JObj [
       entry ''analysis_summary'' (JObj [
         entry ''risk_level'' (str (riskLevel score)),
         entry ''risk_score'' (JNum (min score 95)),
         entry ''primary_concern'' (if emotional
           then str ''Content uses emotional manipulation and urgency tactics''
           else str ''Content appears relatively neutral''),
         entry ''credibility_rating'' (str (credibility score))]),
       entry ''detected_tactics'' (if emotional then JArr [
           JObj [
             entry ''tactic_name'' (str ''Emotional Manipulation''),
             entry ''description'' (str ''Uses strong emotional language to bypass critical thinking''),
             entry ''example_from_content'' (JStr (take 100 content @ lit ''...'')),
             entry ''manipulation_type'' (str ''EMOTIONAL'')],
           JObj [
             entry ''tactic_name'' (str ''Urgency Creation''),
             entry ''description'' (str ''Creates artificial time pressure to prompt immediate action''),
             entry ''example_from_content'' (str ''Act fast''),
             entry ''manipulation_type'' (str ''SOCIAL'')]]
         else JArr [
           JObj [
             entry ''tactic_name'' (str ''Demo Analysis''),
             entry ''description'' (str ''This is a demonstration of our analysis capabilities''),
             entry ''example_from_content'' (str ''Sample content analysis''),
             entry ''manipulation_type'' (str ''LOGICAL'')]]),
       entry ''cognitive_biases'' (JArr [
           JObj [
             entry ''bias_name'' (str ''Fear of Missing Out (FOMO)''),
             entry ''explanation'' (str ''The tendency to feel anxiety about missing beneficial opportunities''),
             entry ''how_its_exploited'' (str ''Content suggests exclusive or time-limited information''),
             entry ''resistance_tip'' (str ''Ask yourself: What's the real urgency? Can I verify this independently?'')],
           JObj [
             entry ''bias_name'' (str ''Authority Bias''),
             entry ''explanation'' (str ''Tendency to trust information from perceived authority figures''),
             entry ''how_its_exploited'' (str ''References to 'scientists' or 'experts' without specific credentials''),
             entry ''resistance_tip'' (str ''Check the actual credentials and affiliations of cited experts'')]]),
       entry ''fact_check_flags'' (if emotional then JArr [
           JObj [
             entry ''claim'' (str ''Scientists are 'shocked' by this discovery''),
             entry ''flag_reason'' (str ''Vague, unsupported claims about scientific consensus''),
             entry ''verification_suggestion'' (str ''Look for peer-reviewed studies and specific researcher names'')]]
         else JArr []),
       entry ''educational_insights'' (JObj [
         entry ''why_convincing'' (if emotional
           then str ''Uses emotional triggers and authority appeals to create trust and urgency''
           else str ''Content appears straightforward without obvious manipulation''),
         entry ''target_audience'' (str ''People seeking health solutions or exclusive information''),
         entry ''psychological_appeal'' (str ''Combines fear, hope, and exclusivity to motivate action''),
         entry ''critical_questions'' (JArr [
           str ''Who specifically are these 'scientists'?'',
           str ''What evidence supports these claims?'',
           str ''Why would this information be suppressed?'',
           str ''What are the potential risks or side effects?'']),
         entry ''verification_steps'' (JArr [
           str ''Search for peer-reviewed research on this topic'',
           str ''Check multiple reputable health information sources'',
           str ''Consult with healthcare professionals'',
           str ''Look for potential conflicts of interest''])]),
       entry ''recommendations'' (JObj [
         entry ''immediate_action'' (if score > 70
           then str ''Exercise extreme caution - verify all claims before acting''
           else str ''Proceed with normal fact-checking practices''),
         entry ''further_research'' (JArr [
           str ''Search scientific databases for related research'',
           str ''Check fact-checking websites'',
           str ''Consult domain experts'']),
         entry ''share_decision'' (if score > 70 then str ''AVOID_SHARING'' else str ''SHARE_WITH_CONTEXT''),
         entry ''learning_opportunity'' (str ''Practice identifying emotional manipulation in content'')]),
       entry ''confidence_metrics'' (JObj [
         entry ''analysis_confidence'' (JNum 75),
         entry ''data_completeness'' (JNum 60),
         entry ''context_availability'' (str ''PARTIAL'')]),
       entry ''metadata'' (JObj [
         entry ''analysis_timestamp'' (JStr now),
         entry ''model_used'' (str ''demo-mode''),
         entry ''content_length'' (JNum contentLength),
         entry ''source_type'' (if hasURL then str ''url'' else str ''text'')])])"

section \<open>The network, the page and the UI helpers\<close>

text \<open>
  A call of \<open>fetch\<close> either rejects (network error) or resolves to a response, whose
  \<open>ok\<close> flag is true for a status from 200 to 299. \<open>jsonBody\<close> is what
  \<open>response.json()\<close> settles to: \<open>Inl\<close> the message of the rejection when the body
  is not JSON, \<open>Inr\<close> the parsed value. Every call is taken to settle: a request that
  gets no answer is rejected by the transport's own timeout.
\<close>

datatype request = GET jsstring | POST jsstring json

record response =
  status :: nat
  statusMessage :: jsstring
  jsonBody :: "jsstring + json"

definition ok :: "response \<Rightarrow> bool" where
  "ok r \<longleftrightarrow> 200 \<le> status r \<and> status r \<le> 299"

datatype fetch_outcome = Rejected jsstring | Resolved response

text \<open>
  The network is the environment: \<open>net n req\<close> is the outcome of request \<open>req\<close> when
  it is the call number \<open>n\<close> of the session, so the same URL may answer differently at
  different times.
\<close>

type_synonym network = "nat \<Rightarrow> request \<Rightarrow> fetch_outcome"

text \<open>
  The mutable state of the page: the module variable \<open>activeBackendUrl\<close>, the properties
  of the DOM elements that the functions below write, the notifications created, the
  arguments \<open>displayReport\<close> was called with, and the requests sent so far.
\<close>

record page =
  activeBackendUrl :: "jsstring option"
  contentInput_value :: jsstring
  statusText_textContent :: jsstring
  statusIcon_className :: jsstring
  errorMessage_textContent :: jsstring
  errorSection_hidden :: bool
  resultsSection_hidden :: bool
  loadingOverlay_hidden :: bool
  analyzeBtn_loading :: bool
  notifications :: "jsstring list"
  displayed :: "json list"
  fetched :: "request list"

definition fetch :: "network \<Rightarrow> request \<Rightarrow> page \<Rightarrow> fetch_outcome \<times> page" where
  "fetch net req s = (net (length (fetched s)) req, s\<lparr>fetched := fetched s @ [req]\<rparr>)"

definition showLoading :: "bool \<Rightarrow> page \<Rightarrow> page" where
  "showLoading flag s =
     (if flag then s\<lparr>loadingOverlay_hidden := False, analyzeBtn_loading := True\<rparr>
      else s\<lparr>loadingOverlay_hidden := True, analyzeBtn_loading := False\<rparr>)"

definition showError :: "jsstring \<Rightarrow> page \<Rightarrow> page" where
  "showError message s = s\<lparr>errorMessage_textContent := message, errorSection_hidden := False\<rparr>"

definition showNotification :: "jsstring \<Rightarrow> page \<Rightarrow> page" where
  "showNotification message s = s\<lparr>notifications := notifications s @ [message]\<rparr>"

text \<open>
  \<open>displayReport\<close> unhides the results section and then fills DOM nodes from the data.
  The filling is the rendering collaborator: it only reads the data, and it is given by
  its one effect on control flow, \<open>Some m\<close> when it throws an error of message \<open>m\<close>.
\<close>

type_synonym renderer = "json \<Rightarrow> jsstring option"

definition displayReport :: "renderer \<Rightarrow> json \<Rightarrow> page \<Rightarrow> jsstring option \<times> page" where
  "displayReport render data s =
     (render data, s\<lparr>resultsSection_hidden := False, displayed := displayed s @ [data]\<rparr>)"

section \<open>Backend discovery\<close>

definition backendUrls :: "jsstring list" where
  "backendUrls =
     [lit ''https://your-render-app.onrender.com'',
      lit ''https://your-railway-app.up.railway.app'',
      lit ''http://localhost:8000'',
      lit ''https://mindful-compass-api-1082426526892.us-central1.run.app'']"

definition probeRequest :: "jsstring \<Rightarrow> request" where
  "probeRequest url = GET (url @ lit ''/'')"

text \<open>The \<open>for ... of\<close> loop of \<open>checkBackendConnection\<close> and the statements after it.\<close>

fun probeLoop :: "network \<Rightarrow> jsstring list \<Rightarrow> page \<Rightarrow> page" where
  "probeLoop net [] s =
     s\<lparr>statusText_textContent := lit ''Backend offline - Demo mode only'',
       statusIcon_className := lit ''fas fa-circle text-error''\<rparr>"
| "probeLoop net (url # urls) s =
     (case fetch net (probeRequest url) s of
        (Resolved resp, s1) \<Rightarrow>
          if ok resp
          then s1\<lparr>activeBackendUrl := Some url,
                  statusText_textContent := lit ''Connected to backend'',
                  statusIcon_className := lit ''fas fa-circle text-success''\<rparr>
          else probeLoop net urls s1
      | (Rejected e, s1) \<Rightarrow> probeLoop net urls s1)"

definition checkBackendConnection :: "network \<Rightarrow> jsstring list \<Rightarrow> page \<Rightarrow> page" where
  "checkBackendConnection net urls s =
     probeLoop net urls
       (s\<lparr>statusText_textContent := lit ''Checking backend connection...'',
          statusIcon_className := lit ''fas fa-circle text-warning''\<rparr>)"

section \<open>The analysis orchestrator\<close>

definition analyzeRequest :: "jsstring \<Rightarrow> jsstring \<Rightarrow> request" where
  "analyzeRequest url content =
     POST (url @ lit ''/analyze'') (JObj [entry ''content'' (JStr content)])"

text \<open>The inner \<open>try\<close>/\<open>catch\<close> of \<open>analyzeContent\<close>: the live attempt and its fallback.\<close>

definition liveAnalysis :: "network \<Rightarrow> jsstring \<Rightarrow> jsstring \<Rightarrow> jsstring \<Rightarrow> page \<Rightarrow> json \<times> page" where
  "liveAnalysis net now url content s =
     (case fetch net (analyzeRequest url content) s of
        (r, s1) \<Rightarrow>
          let fallback = (getDemoAnalysis now content,
                showNotification (lit ''Using demo mode - backend temporarily unavailable'') s1)
          in case r of
               Rejected e \<Rightarrow> fallback
             | Resolved resp \<Rightarrow>
                 if \<not> ok resp then fallback
                 else (case jsonBody resp of
                         Inl e \<Rightarrow> fallback
                       | Inr v \<Rightarrow> (v, s1)))"

definition demoAnalysis :: "jsstring \<Rightarrow> jsstring \<Rightarrow> page \<Rightarrow> json \<times> page" where
  "demoAnalysis now content s =
     (getDemoAnalysis now content, showNotification (lit ''Running in demo mode'') s)"

text \<open>
  \<open>analyzeContent\<close>. The test \<open>if (activeBackendUrl)\<close> is false for \<open>null\<close> and for
  the empty string.
\<close>

definition analyzeContent :: "renderer \<Rightarrow> network \<Rightarrow> jsstring \<Rightarrow> page \<Rightarrow> page" where
  "analyzeContent render net now s =
     (let content = trim (contentInput_value s) in
      if content = [] then showError (lit ''Please enter some content to analyze'') s
      else
        let s1 = (showLoading True s)\<lparr>resultsSection_hidden := True, errorSection_hidden := True\<rparr>
        in case (case activeBackendUrl s1 of
                   Some url \<Rightarrow>
                     if url \<noteq> [] then liveAnalysis net now url content s1
                     else demoAnalysis now content s1
                 | None \<Rightarrow> demoAnalysis now content s1) of
             (analysisData, s2) \<Rightarrow>
               (case displayReport render analysisData s2 of
                  (None, s3) \<Rightarrow> showLoading False s3
                | (Some message, s3) \<Rightarrow>
                    showLoading False (showError (lit ''Analysis failed: '' @ message) s3)))"

text \<open>The content that the demo button puts into the input before it calls \<open>analyzeContent\<close>.\<close>

definition demoContent :: jsstring where
  "demoContent =
     lit ''BREAKING: Scientists SHOCKED by this simple trick that Big Pharma HATES! '' @ [10] @
     lit ''They don't want you to know this one secret that could save your life. '' @ [10] @
     lit ''Thousands of people are already using this, but the mainstream media won't report it. '' @ [10] @
     lit ''Act fast - this information might be taken down soon!''"

definition demoBtn_click :: "renderer \<Rightarrow> network \<Rightarrow> jsstring \<Rightarrow> page \<Rightarrow> page" where
  "demoBtn_click render net now s = analyzeContent render net now (s\<lparr>contentInput_value := demoContent\<rparr>)"

section \<open>The basic submit handler\<close>

text \<open>
  The submit handler of \<open>lielens-frontend/script.js\<close>, the frontend without backend
  discovery and without demo mode. Its \<open>showLoading\<close> only toggles the overlay. When the
  status is not a success the handler throws an error built from the body, whose message
  \<open>notOkMessage\<close> stands for; its renderer reads the groups without defaults.
\<close>

definition backendUrl :: jsstring where
  "backendUrl = lit ''https://mindful-compass-api-1082426526892.us-central1.run.app''"

definition showLoading_basic :: "bool \<Rightarrow> page \<Rightarrow> page" where
  "showLoading_basic flag s =
     (if flag then s\<lparr>loadingOverlay_hidden := False\<rparr> else s\<lparr>loadingOverlay_hidden := True\<rparr>)"

definition submit_basic :: "renderer \<Rightarrow> (response \<Rightarrow> jsstring) \<Rightarrow> network \<Rightarrow> page \<Rightarrow> page" where
  "submit_basic render notOkMessage net s =
     (let content = trim (contentInput_value s) in
      if content = [] then s
      else
        let s1 = (showLoading_basic True s)\<lparr>resultsSection_hidden := True, errorSection_hidden := True\<rparr>
        in case fetch net (analyzeRequest backendUrl content) s1 of
             (Rejected e, s2) \<Rightarrow> showLoading_basic False (showError e s2)
           | (Resolved resp, s2) \<Rightarrow>
               if \<not> ok resp then showLoading_basic False (showError (notOkMessage resp) s2)
               else (case jsonBody resp of
                       Inl e \<Rightarrow> showLoading_basic False (showError e s2)
                     | Inr analysisData \<Rightarrow>
                         (case displayReport render analysisData s2 of
                            (None, s3) \<Rightarrow> showLoading_basic False s3
                          | (Some message, s3) \<Rightarrow>
                              showLoading_basic False (showError message s3))))"

section \<open>Reading a value\<close>

text \<open>Property and index access, as in \<open>data.detected_tactics[0].tactic_name\<close>.\<close>

datatype accessor = Key string | Index nat

fun access :: "accessor \<Rightarrow> json \<Rightarrow> json option" where
  "access (Key k) v = field k v"
| "access (Index i) (JArr xs) = (if i < length xs then Some (xs ! i) else None)"
| "access (Index i) _ = None"

fun path :: "accessor list \<Rightarrow> json \<Rightarrow> json option" where
  "path [] v = Some v"
| "path (a # as) v = (case access a v of None \<Rightarrow> None | Some x \<Rightarrow> path as x)"

definition elems :: "accessor list \<Rightarrow> json \<Rightarrow> json list option" where
  "elems p v = (case path p v of Some (JArr xs) \<Rightarrow> Some xs | _ \<Rightarrow> None)"

text \<open>A report without its \<open>metadata.analysis_timestamp\<close>.\<close>

definition dropTimestamp :: "json \<Rightarrow> json" where
  "dropTimestamp v =
     (case v of
        JObj m \<Rightarrow> JObj (filter (\<lambda>kv. fst kv \<noteq> lit ''analysis_timestamp'') m)
      | _ \<Rightarrow> v)"

definition ignoringTimestamp :: "json \<Rightarrow> json" where
  "ignoringTimestamp r =
     (case r of
        JObj kvs \<Rightarrow>
          JObj (map (\<lambda>kv. if fst kv = lit ''metadata'' then (fst kv, dropTimestamp (snd kv)) else kv) kvs)
      | _ \<Rightarrow> r)"

section \<open>The specification's own terms\<close>

text \<open>
  The scoring rules in the specification's words: the content matches a trigger word
  case-insensitively when some stretch of it equals the word up to the case of ASCII
  letters; it has a capitals run when some stretch of four or more units consists of
  the letters A to Z.
\<close>

definition spec_matchesTrigger :: "jsstring \<Rightarrow> bool" where
  "spec_matchesTrigger content \<longleftrightarrow>
     (\<exists>w \<in> set emotionalWords. \<exists>pre u post.
        content = pre @ u @ post \<and> map toUpperAscii u = map toUpperAscii (lit w))"

definition spec_hasCapsRun :: "jsstring \<Rightarrow> bool" where
  "spec_hasCapsRun content \<longleftrightarrow>
     (\<exists>pre run post. content = pre @ run @ post \<and> 4 \<le> length run \<and> (\<forall>c \<in> set run. isUpperAZ c))"

text \<open>
  The Report schema of the specification's data model. A group has every listed property,
  each of its kind, and no other property. The timestamp is required to be a string; its
  ISO-8601 format belongs to the clock.
\<close>

definition spec_isString :: "json \<Rightarrow> bool" where
  "spec_isString v = (case v of JStr x \<Rightarrow> True | _ \<Rightarrow> False)"

definition spec_isEnum :: "string list \<Rightarrow> json \<Rightarrow> bool" where
  "spec_isEnum names v = list_ex (\<lambda>n. v = str n) names"

definition spec_isInt :: "json \<Rightarrow> bool" where
  "spec_isInt v = (case v of JNum n \<Rightarrow> True | _ \<Rightarrow> False)"

definition spec_isIntIn :: "int \<Rightarrow> int \<Rightarrow> json \<Rightarrow> bool" where
  "spec_isIntIn lo hi v = (case v of JNum n \<Rightarrow> lo \<le> n \<and> n \<le> hi | _ \<Rightarrow> False)"

definition spec_isListOf :: "(json \<Rightarrow> bool) \<Rightarrow> json \<Rightarrow> bool" where
  "spec_isListOf P v = (case v of JArr xs \<Rightarrow> list_all P xs | _ \<Rightarrow> False)"

definition spec_isGroup :: "(string \<times> (json \<Rightarrow> bool)) list \<Rightarrow> json \<Rightarrow> bool" where
  "spec_isGroup props v =
     (case v of
        JObj kvs \<Rightarrow>
          list_all (\<lambda>f. case getProp kvs (lit (fst f)) of Some x \<Rightarrow> snd f x | None \<Rightarrow> False) props
          \<and> list_all (\<lambda>kv. list_ex (\<lambda>f. fst kv = lit (fst f)) props) kvs
      | _ \<Rightarrow> False)"

definition spec_Tactic :: "json \<Rightarrow> bool" where
  "spec_Tactic = spec_isGroup [
     (''tactic_name'', spec_isString),
     (''description'', spec_isString),
     (''example_from_content'', spec_isString),
     (''manipulation_type'', spec_isEnum [''EMOTIONAL'', ''SOCIAL'', ''LOGICAL''])]"

definition spec_Bias :: "json \<Rightarrow> bool" where
  "spec_Bias = spec_isGroup [
     (''bias_name'', spec_isString),
     (''explanation'', spec_isString),
     (''how_its_exploited'', spec_isString),
     (''resistance_tip'', spec_isString)]"

definition spec_Flag :: "json \<Rightarrow> bool" where
  "spec_Flag = spec_isGroup [
     (''claim'', spec_isString),
     (''flag_reason'', spec_isString),
     (''verification_suggestion'', spec_isString)]"

definition spec_Summary :: "json \<Rightarrow> bool" where
  "spec_Summary = spec_isGroup [
     (''risk_level'', spec_isEnum [''LOW'', ''MEDIUM'', ''HIGH'']),
     (''risk_score'', spec_isIntIn 0 100),
     (''primary_concern'', spec_isString),
     (''credibility_rating'', spec_isEnum [''RELIABLE'', ''QUESTIONABLE''])]"

definition spec_Insights :: "json \<Rightarrow> bool" where
  "spec_Insights = spec_isGroup [
     (''why_convincing'', spec_isString),
     (''target_audience'', spec_isString),
     (''psychological_appeal'', spec_isString),
     (''critical_questions'', spec_isListOf spec_isString),
     (''verification_steps'', spec_isListOf spec_isString)]"

definition spec_Recommendations :: "json \<Rightarrow> bool" where
  "spec_Recommendations = spec_isGroup [
     (''immediate_action'', spec_isString),
     (''further_research'', spec_isListOf spec_isString),
     (''share_decision'', spec_isEnum [''AVOID_SHARING'', ''SHARE_WITH_CONTEXT'']),
     (''learning_opportunity'', spec_isString)]"

definition spec_Confidence :: "json \<Rightarrow> bool" where
  "spec_Confidence = spec_isGroup [
     (''analysis_confidence'', spec_isIntIn 0 100),
     (''data_completeness'', spec_isIntIn 0 100),
     (''context_availability'', spec_isEnum [''PARTIAL'', ''FULL'', ''NONE''])]"

definition spec_Metadata :: "json \<Rightarrow> bool" where
  "spec_Metadata = spec_isGroup [
     (''analysis_timestamp'', spec_isString),
     (''model_used'', spec_isString),
     (''content_length'', spec_isInt),
     (''source_type'', spec_isEnum [''url'', ''text''])]"

definition spec_Report :: "json \<Rightarrow> bool" where
  "spec_Report = spec_isGroup [
     (''analysis_summary'', spec_Summary),
     (''detected_tactics'', spec_isListOf spec_Tactic),
     (''cognitive_biases'', spec_isListOf spec_Bias),
     (''fact_check_flags'', spec_isListOf spec_Flag),
     (''educational_insights'', spec_Insights),
     (''recommendations'', spec_Recommendations),
     (''confidence_metrics'', spec_Confidence),
     (''metadata'', spec_Metadata)]"

text \<open>The groups and the list-valued fields that the renderer needs present.\<close>

definition requiredGroups :: "string list" where
  "requiredGroups =
     [''analysis_summary'', ''educational_insights'', ''recommendations'', ''confidence_metrics'']"

definition listFields :: "accessor list list" where
  "listFields =
     [[Key ''detected_tactics''], [Key ''cognitive_biases''], [Key ''fact_check_flags''],
      [Key ''educational_insights'', Key ''critical_questions''],
      [Key ''educational_insights'', Key ''verification_steps''],
      [Key ''recommendations'', Key ''further_research'']]"

definition isObject :: "json option \<Rightarrow> bool" where
  "isObject x = (case x of Some (JObj kvs) \<Rightarrow> True | _ \<Rightarrow> False)"

definition isArray :: "json option \<Rightarrow> bool" where
  "isArray x = (case x of Some (JArr xs) \<Rightarrow> True | _ \<Rightarrow> False)"

text \<open>
  A reachability probe succeeds when the request resolves to a response with a success
  status; a rejected request and a response outside 200..299 both count as unreachable.
\<close>

definition probeSucceeds :: "network \<Rightarrow> nat \<Rightarrow> jsstring \<Rightarrow> bool" where
  "probeSucceeds net n url =
     (case net n (probeRequest url) of Resolved resp \<Rightarrow> ok resp | Rejected e \<Rightarrow> False)"

section \<open>Sample inputs\<close>

text \<open>
  Concrete clocks, pages, responses, networks and a renderer, on which the theorems
  below are instantiated. \<open>loadedPage\<close> is the page when the script starts:
  \<open>activeBackendUrl\<close> is \<open>null\<close>, nothing has been typed, sent or shown.
\<close>

definition sampleNow :: jsstring where
  "sampleNow = lit ''2026-01-01T00:00:00.000Z''"

definition laterNow :: jsstring where
  "laterNow = lit ''2026-01-01T00:00:05.000Z''"

definition loadedPage :: page where
  "loadedPage =
     \<lparr>activeBackendUrl = None, contentInput_value = [], statusText_textContent = [],
      statusIcon_className = [], errorMessage_textContent = [], errorSection_hidden = True,
      resultsSection_hidden = True, loadingOverlay_hidden = True, analyzeBtn_loading = False,
      notifications = [], displayed = [], fetched = []\<rparr>"

definition connectedPage :: page where
  "connectedPage =
     loadedPage\<lparr>activeBackendUrl := Some (lit ''http://localhost:8000''),
                contentInput_value := lit ''  hello ''\<rparr>"

definition blankInputPage :: page where
  "blankInputPage =
     loadedPage\<lparr>activeBackendUrl := Some (lit ''http://localhost:8000''),
                contentInput_value := lit ''   '' @ [10, 9]\<rparr>"

definition okResponse :: response where
  "okResponse = \<lparr>status = 200, statusMessage = lit ''OK'', jsonBody = Inr (JObj [])\<rparr>"

definition htmlResponse :: response where
  "htmlResponse =
     \<lparr>status = 200, statusMessage = lit ''OK'',
      jsonBody = Inl (lit ''Unexpected token < in JSON at position 0'')\<rparr>"

definition errorResponse :: response where
  "errorResponse =
     \<lparr>status = 503, statusMessage = lit ''Service Unavailable'', jsonBody = Inr (JObj [])\<rparr>"

definition localUpNet :: network where
  "localUpNet n req =
     (if req = probeRequest (lit ''http://localhost:8000'')
        \<or> req = probeRequest (lit ''https://mindful-compass-api-1082426526892.us-central1.run.app'')
      then Resolved okResponse
      else Rejected (lit ''Failed to fetch''))"

definition offlineNet :: network where
  "offlineNet n req = Rejected (lit ''Failed to fetch'')"

definition htmlBodyNet :: network where
  "htmlBodyNet n req = Resolved htmlResponse"

definition errorStatusNet :: network where
  "errorStatusNet n req = Resolved errorResponse"

definition emptyObjectNet :: network where
  "emptyObjectNet n req = Resolved okResponse"

definition quietRenderer :: renderer where
  "quietRenderer data = None"

section \<open>Facts about strings and searches\<close>

lemma searchFrom_iff: "searchFrom m s \<longleftrightarrow> (\<exists>pre t. s = pre @ t \<and> m t)"
proof (induction s)
  case Nil
  then show ?case by simp
next
  case (Cons c cs)
  show ?case
  proof
    assume "searchFrom m (c # cs)"
    then consider "m (c # cs)" | "searchFrom m cs" by auto
    then show "\<exists>pre t. c # cs = pre @ t \<and> m t"
    proof cases
      case 1
      then have "c # cs = [] @ (c # cs) \<and> m (c # cs)" by simp
      then show ?thesis by blast
    next
      case 2
      with Cons.IH obtain pre t where "cs = pre @ t" "m t" by blast
      then have "c # cs = (c # pre) @ t \<and> m t" by simp
      then show ?thesis by blast
    qed
  next
    assume "\<exists>pre t. c # cs = pre @ t \<and> m t"
    then obtain pre t where d: "c # cs = pre @ t" and m: "m t" by blast
    show "searchFrom m (c # cs)"
    proof (cases pre)
      case Nil
      with d m have "m (c # cs)" by simp
      then show ?thesis by simp
    next
      case (Cons a pre')
      with d have "cs = pre' @ t" by simp
      with m Cons.IH have "searchFrom m cs" by blast
      then show ?thesis by simp
    qed
  qed
qed

lemma matchIgnoreCase_iff:
  "matchIgnoreCase p t \<longleftrightarrow> (\<exists>u post. t = u @ post \<and> map toUpperAscii u = map toUpperAscii p)"
proof (induction p t rule: matchIgnoreCase.induct)
  case (1 s)
  then show ?case by simp
next
  case (2 p ps)
  then show ?case by simp
next
  case (3 p ps c cs)
  show ?case
  proof
    assume "matchIgnoreCase (p # ps) (c # cs)"
    then have h: "toUpperAscii p = toUpperAscii c" and "matchIgnoreCase ps cs" by simp_all
    with 3 obtain u post where "cs = u @ post" "map toUpperAscii u = map toUpperAscii ps" by blast
    with h have "c # cs = (c # u) @ post \<and> map toUpperAscii (c # u) = map toUpperAscii (p # ps)" by simp
    then show "\<exists>u post. c # cs = u @ post \<and> map toUpperAscii u = map toUpperAscii (p # ps)" by blast
  next
    assume "\<exists>u post. c # cs = u @ post \<and> map toUpperAscii u = map toUpperAscii (p # ps)"
    then obtain u post where d: "c # cs = u @ post" and e: "map toUpperAscii u = map toUpperAscii (p # ps)" by blast
    from e obtain a u' where u: "u = a # u'" by (cases u) auto
    with d e have "a = c" "cs = u' @ post" "toUpperAscii a = toUpperAscii p" "map toUpperAscii u' = map toUpperAscii ps" by auto
    with 3 show "matchIgnoreCase (p # ps) (c # cs)" by auto
  qed
qed

lemma startsWith_iff: "startsWith p t \<longleftrightarrow> (\<exists>post. t = p @ post)"
  by (induction p t rule: startsWith.induct) auto

lemma includes_bang: "includes_js (lit ''!'') s \<longleftrightarrow> 33 \<in> set s"
  by (induction s) (auto simp: includes_js_def lit_def)

lemma of_char_nat_bound: "(of_char c :: nat) < 65536"
proof -
  have "(of_char c :: nat) mod 256 < 256" by (rule mod_less_divisor) simp
  then have "(of_char c :: nat) < 256" by (simp only: of_char_mod_256)
  then show ?thesis by linarith
qed

lemma unat_of_char16: "unat (of_char c :: 16 word) = of_char c"
proof -
  have e: "(of_char c :: 16 word) = of_nat (of_char c)" by (simp only: of_nat_of_char)
  have "unat (of_nat (of_char c) :: 16 word) = of_char c"
    by (rule le_unat_uoi [where z = "65535"]) (use of_char_nat_bound [of c] in simp)
  with e show ?thesis by simp
qed

lemma of_char16_inj: "(of_char c :: 16 word) = of_char d \<longleftrightarrow> c = d"
proof
  assume h: "(of_char c :: 16 word) = of_char d"
  have "unat (of_char c :: 16 word) = unat (of_char d :: 16 word)"
    by (rule arg_cong [OF h])
  then have "(of_char c :: nat) = of_char d" by (simp only: unat_of_char16)
  then show "c = d" by (simp only: of_char_eq_iff)
next
  assume "c = d"
  then show "(of_char c :: 16 word) = of_char d" by (rule arg_cong)
qed

lemma lit_eq_iff [simp]: "lit a = lit b \<longleftrightarrow> a = b"
proof (induction a arbitrary: b)
  case Nil
  then show ?case by (cases b) (simp_all add: lit_def)
next
  case (Cons x xs)
  show ?case
  proof (cases b)
    case Nil
    then show ?thesis by (simp add: lit_def)
  next
    case (Cons y ys)
    have "lit (x # xs) = lit (y # ys) \<longleftrightarrow> (of_char x :: 16 word) = of_char y \<and> lit xs = lit ys"
      by (simp only: lit_def list.map list.inject)
    then show ?thesis using Cons Cons.IH [of ys] by (simp only: of_char16_inj list.inject)
  qed
qed

lemma lit_append: "lit a @ lit b = lit (a @ b)"
  by (simp add: lit_def)

lemma hasEmotionalWords_iff: "hasEmotionalWords c \<longleftrightarrow> spec_matchesTrigger c"
  unfolding hasEmotionalWords_def spec_matchesTrigger_def searchFrom_iff list_ex_iff matchIgnoreCase_iff
  by metis

lemma capsRunAt_iff:
  "capsRunAt t \<longleftrightarrow> (\<exists>a b c d post. t = a # b # c # d # post \<and> isUpperAZ a \<and> isUpperAZ b \<and> isUpperAZ c \<and> isUpperAZ d)"
  by (cases t rule: capsRunAt.cases) auto

lemma hasAllCaps_iff: "hasAllCaps c \<longleftrightarrow> spec_hasCapsRun c"
proof
  assume "hasAllCaps c"
  then obtain pre t where c: "c = pre @ t" and "capsRunAt t"
    unfolding hasAllCaps_def searchFrom_iff by blast
  then obtain a b c' d post where t: "t = a # b # c' # d # post"
    and u: "isUpperAZ a" "isUpperAZ b" "isUpperAZ c'" "isUpperAZ d"
    unfolding capsRunAt_iff by blast
  from c t have "c = pre @ [a, b, c', d] @ post" by simp
  moreover have "4 \<le> length [a, b, c', d]" by simp
  moreover from u have "\<forall>x \<in> set [a, b, c', d]. isUpperAZ x" by simp
  ultimately show "spec_hasCapsRun c" unfolding spec_hasCapsRun_def by blast
next
  assume "spec_hasCapsRun c"
  then obtain pre run post where c: "c = pre @ run @ post" and l: "4 \<le> length run"
    and u: "\<forall>x \<in> set run. isUpperAZ x"
    unfolding spec_hasCapsRun_def by blast
  from l obtain a b c' d rest where r: "run = a # b # c' # d # rest"
    by (cases run rule: capsRunAt.cases) simp_all
  from u have "capsRunAt (run @ post)" unfolding r by simp
  with c show "hasAllCaps c" unfolding hasAllCaps_def searchFrom_iff by blast
qed

section \<open>Facts about the demo analysis\<close>

lemma gda_summary:
  "field ''analysis_summary'' (getDemoAnalysis now c) = Some (JObj [
         entry ''risk_level'' (str (riskLevel (riskScore c))),
         entry ''risk_score'' (JNum (min (riskScore c) 95)),
         entry ''primary_concern'' (if hasEmotionalWords c
           then str ''Content uses emotional manipulation and urgency tactics''
           else str ''Content appears relatively neutral''),
         entry ''credibility_rating'' (str (credibility (riskScore c)))])"
  by (simp add: getDemoAnalysis_def Let_def)

lemma riskScore_sum:
  "riskScore c =
      30 + (if hasEmotionalWords c then 25 else 0)
         + (if hasAllCaps c then 20 else 0)
         + (if includes_js (lit ''!'') c then 10 else 0)
         - (if length c < 100 then 10 else 0)"
  by (simp add: riskScore_def Let_def)

lemma riskScore_bounds: "20 \<le> riskScore c \<and> riskScore c \<le> 85"
  by (simp add: riskScore_sum)

lemma riskLevel_enum: "riskLevel n = ''LOW'' \<or> riskLevel n = ''MEDIUM'' \<or> riskLevel n = ''HIGH''"
  by (simp add: riskLevel_def)

lemma credibility_enum: "credibility n = ''RELIABLE'' \<or> credibility n = ''QUESTIONABLE''"
  by (simp add: credibility_def)

lemma gda_summary_conforms: "spec_Summary (JObj [
         entry ''risk_level'' (str (riskLevel (riskScore c))),
         entry ''risk_score'' (JNum (min (riskScore c) 95)),
         entry ''primary_concern'' (if hasEmotionalWords c
           then str ''Content uses emotional manipulation and urgency tactics''
           else str ''Content appears relatively neutral''),
         entry ''credibility_rating'' (str (credibility (riskScore c)))])"
  using riskScore_bounds [of c] riskLevel_enum [of "riskScore c"] credibility_enum [of "riskScore c"]
  by (simp add: spec_Summary_def spec_isGroup_def spec_isEnum_def spec_isIntIn_def spec_isString_def)

lemma ignoringTimestamp_gda:
  "ignoringTimestamp (getDemoAnalysis now1 content) = ignoringTimestamp (getDemoAnalysis now2 content)"
  by (simp add: getDemoAnalysis_def Let_def ignoringTimestamp_def dropTimestamp_def)

section \<open>Facts about backend discovery\<close>

lemma probeLoop_none:
  "(\<forall>j < length urls. \<not> probeSucceeds net (length (fetched s) + j) (urls ! j)) \<Longrightarrow>
   probeLoop net urls s =
     s\<lparr>fetched := fetched s @ map probeRequest urls,
       statusText_textContent := lit ''Backend offline - Demo mode only'',
       statusIcon_className := lit ''fas fa-circle text-error''\<rparr>"
proof (induction urls arbitrary: s)
  case Nil
  then show ?case by simp
next
  case (Cons u us)
  let ?s1 = "s\<lparr>fetched := fetched s @ [probeRequest u]\<rparr>"
  from Cons.prems have h0: "\<not> probeSucceeds net (length (fetched s)) u" by fastforce
  have "\<forall>j < length us. \<not> probeSucceeds net (length (fetched ?s1) + j) (us ! j)"
  proof (intro allI impI)
    fix j assume "j < length us"
    then have "Suc j < length (u # us)" by simp
    with Cons.prems have "\<not> probeSucceeds net (length (fetched s) + Suc j) ((u # us) ! Suc j)" by blast
    then show "\<not> probeSucceeds net (length (fetched ?s1) + j) (us ! j)" by simp
  qed
  then have ih: "probeLoop net us ?s1 =
     ?s1\<lparr>fetched := fetched ?s1 @ map probeRequest us,
       statusText_textContent := lit ''Backend offline - Demo mode only'',
       statusIcon_className := lit ''fas fa-circle text-error''\<rparr>"
    by (rule Cons.IH)
  from h0 have "probeLoop net (u # us) s = probeLoop net us ?s1"
    by (simp add: probeSucceeds_def fetch_def split: fetch_outcome.splits)
  with ih show ?case by simp
qed

lemma probeLoop_first:
  "i < length urls \<Longrightarrow> probeSucceeds net (length (fetched s) + i) (urls ! i) \<Longrightarrow>
   (\<forall>j < i. \<not> probeSucceeds net (length (fetched s) + j) (urls ! j)) \<Longrightarrow>
   probeLoop net urls s =
     s\<lparr>fetched := fetched s @ map probeRequest (take (Suc i) urls),
       activeBackendUrl := Some (urls ! i),
       statusText_textContent := lit ''Connected to backend'',
       statusIcon_className := lit ''fas fa-circle text-success''\<rparr>"
proof (induction urls arbitrary: s i)
  case Nil
  then show ?case by simp
next
  case (Cons u us)
  let ?s1 = "s\<lparr>fetched := fetched s @ [probeRequest u]\<rparr>"
  show ?case
  proof (cases i)
    case 0
    with Cons.prems have "probeSucceeds net (length (fetched s)) u" by simp
    then show ?thesis using 0
      by (simp add: probeSucceeds_def fetch_def split: fetch_outcome.splits)
  next
    case (Suc k)
    with Cons.prems have k: "k < length us" by simp
    from Cons.prems Suc have "\<not> probeSucceeds net (length (fetched s) + 0) ((u # us) ! 0)" by blast
    then have h0: "\<not> probeSucceeds net (length (fetched s)) u" by simp
    from Cons.prems Suc have hk: "probeSucceeds net (length (fetched ?s1) + k) (us ! k)" by simp
    have hj: "\<forall>j < k. \<not> probeSucceeds net (length (fetched ?s1) + j) (us ! j)"
    proof (intro allI impI)
      fix j assume "j < k"
      then have "Suc j < i" using Suc by simp
      with Cons.prems have "\<not> probeSucceeds net (length (fetched s) + Suc j) ((u # us) ! Suc j)" by blast
      then show "\<not> probeSucceeds net (length (fetched ?s1) + j) (us ! j)" by simp
    qed
    have ih: "probeLoop net us ?s1 =
       ?s1\<lparr>fetched := fetched ?s1 @ map probeRequest (take (Suc k) us),
         activeBackendUrl := Some (us ! k),
         statusText_textContent := lit ''Connected to backend'',
         statusIcon_className := lit ''fas fa-circle text-success''\<rparr>"
      using k hk hj by (rule Cons.IH)
    from h0 have "probeLoop net (u # us) s = probeLoop net us ?s1"
      by (simp add: probeSucceeds_def fetch_def split: fetch_outcome.splits)
    with ih Suc show ?thesis by simp
  qed
qed

lemma probeRequest_lit_eq: "probeRequest (lit a) = probeRequest (lit b) \<longleftrightarrow> a = b"
  by (simp add: probeRequest_def)

section \<open>Facts about the orchestrator\<close>

lemma trim_empty_iff: "trim s = [] \<longleftrightarrow> (\<forall>c \<in> set s. isWhiteSpace c)"
proof
  assume "trim s = []"
  then have a: "\<forall>c \<in> set (dropWhile isWhiteSpace s). isWhiteSpace c"
    by (simp add: trim_def dropWhile_eq_Nil_conv)
  have "dropWhile isWhiteSpace s = []"
  proof (rule ccontr)
    assume n: "dropWhile isWhiteSpace s \<noteq> []"
    then have "\<not> isWhiteSpace (hd (dropWhile isWhiteSpace s))" by (rule hd_dropWhile)
    moreover from n have "hd (dropWhile isWhiteSpace s) \<in> set (dropWhile isWhiteSpace s)" by simp
    ultimately show False using a by blast
  qed
  then show "\<forall>c \<in> set s. isWhiteSpace c" by (simp add: dropWhile_eq_Nil_conv)
next
  assume "\<forall>c \<in> set s. isWhiteSpace c"
  then have "dropWhile isWhiteSpace s = []" by (simp add: dropWhile_eq_Nil_conv)
  then show "trim s = []" by (simp only: trim_def rev.simps dropWhile.simps)
qed

lemma analyzeContent_live:
  assumes "trim (contentInput_value s) = content" "content \<noteq> []"
    and "activeBackendUrl s = Some url" "url \<noteq> []"
  shows "analyzeContent render net now s =
     (case liveAnalysis net now url content
             ((showLoading True s)\<lparr>resultsSection_hidden := True, errorSection_hidden := True\<rparr>) of
        (analysisData, s2) \<Rightarrow>
          (case displayReport render analysisData s2 of
             (None, s3) \<Rightarrow> showLoading False s3
           | (Some message, s3) \<Rightarrow>
               showLoading False (showError (lit ''Analysis failed: '' @ message) s3)))"
  using assms by (simp add: analyzeContent_def showLoading_def)

lemma liveAnalysis_fallback:
  assumes "case net (length (fetched s)) (analyzeRequest url content) of
             Rejected e \<Rightarrow> True
           | Resolved resp \<Rightarrow> \<not> ok resp \<or> (case jsonBody resp of Inl e \<Rightarrow> True | Inr v \<Rightarrow> False)"
  shows "liveAnalysis net now url content s =
     (getDemoAnalysis now content,
      s\<lparr>fetched := fetched s @ [analyzeRequest url content],
        notifications := notifications s @ [lit ''Using demo mode - backend temporarily unavailable'']\<rparr>)"
  using assms
  by (simp add: liveAnalysis_def fetch_def showNotification_def Let_def
      split: fetch_outcome.splits sum.splits)

lemma liveAnalysis_parsed:
  assumes "net (length (fetched s)) (analyzeRequest url content) = Resolved resp" "ok resp"
    "jsonBody resp = Inr v"
  shows "liveAnalysis net now url content s = (v, s\<lparr>fetched := fetched s @ [analyzeRequest url content]\<rparr>)"
  using assms by (simp add: liveAnalysis_def fetch_def)

lemma after_display:
  "displayed (case displayReport render d s of
             (None, s3) \<Rightarrow> showLoading False s3
           | (Some message, s3) \<Rightarrow> showLoading False (showError (lit ''Analysis failed: '' @ message) s3))
     = displayed s @ [d]"
  "fetched (case displayReport render d s of
             (None, s3) \<Rightarrow> showLoading False s3
           | (Some message, s3) \<Rightarrow> showLoading False (showError (lit ''Analysis failed: '' @ message) s3))
     = fetched s"
  "notifications (case displayReport render d s of
             (None, s3) \<Rightarrow> showLoading False s3
           | (Some message, s3) \<Rightarrow> showLoading False (showError (lit ''Analysis failed: '' @ message) s3))
     = notifications s"
  "errorSection_hidden (case displayReport render d s of
             (None, s3) \<Rightarrow> showLoading False s3
           | (Some message, s3) \<Rightarrow> showLoading False (showError (lit ''Analysis failed: '' @ message) s3))
     = (errorSection_hidden s \<and> render d = None)"
  by (simp_all add: displayReport_def showLoading_def showError_def split: option.splits)

text \<open>The demo button, pressed while no backend is active.\<close>

lemma trim_demoContent: "trim demoContent = demoContent"
  by code_simp

lemma demoBtn_click_offline:
  "activeBackendUrl s = None \<Longrightarrow>
   displayed (demoBtn_click render net now s) = displayed s @ [getDemoAnalysis now demoContent]
   \<and> fetched (demoBtn_click render net now s) = fetched s
   \<and> notifications (demoBtn_click render net now s) = notifications s @ [lit ''Running in demo mode'']"
proof -
  have n: "demoContent \<noteq> []" by (simp add: demoContent_def)
  assume "activeBackendUrl s = None"
  then show ?thesis
    by (simp add: demoBtn_click_def analyzeContent_def trim_demoContent n demoAnalysis_def Let_def
        showNotification_def showLoading_def displayReport_def showError_def split: option.splits)
qed

section \<open>Facts about the basic submit handler\<close>

text \<open>
  On blank input the basic handler returns at once and leaves the page as it was, error
  section included. A success response whose body is not JSON ends in its \<open>catch\<close>: the
  message of the rejection is shown and nothing is rendered.
\<close>

lemma submit_basic_blank:
  "trim (contentInput_value s) = [] \<Longrightarrow> submit_basic render notOkMessage net s = s"
  by (simp add: submit_basic_def)

lemma submit_basic_unparseable:
  assumes "trim (contentInput_value s) = content" "content \<noteq> []"
    and "net (length (fetched s)) (analyzeRequest backendUrl content) = Resolved resp"
    and "ok resp" "jsonBody resp = Inl e"
  shows "displayed (submit_basic render notOkMessage net s) = displayed s
       \<and> errorMessage_textContent (submit_basic render notOkMessage net s) = e
       \<and> \<not> errorSection_hidden (submit_basic render notOkMessage net s)"
  using assms
  by (simp add: submit_basic_def fetch_def showLoading_basic_def showError_def)

section \<open>Facts about the sample inputs\<close>

lemma sample_hasEmotionalWords: "hasEmotionalWords (lit ''BREAKING: a secret!'')" by code_simp

lemma sample_hasAllCaps: "hasAllCaps (lit ''BREAKING: a secret!'')" by code_simp

lemma riskScore_breaking_news: "riskScore (lit ''BREAKING news'') = 65" by code_simp

lemma riskScore_demoContent: "riskScore demoContent = 85" by code_simp

lemma riskScore_empty: "riskScore [] = 20" by code_simp

lemma ok_okResponse: "ok okResponse"
  by (simp add: ok_def okResponse_def)

lemma localUp0: "\<not> probeSucceeds localUpNet n (backendUrls ! 0)"
  by (simp add: probeSucceeds_def localUpNet_def backendUrls_def probeRequest_lit_eq)

lemma localUp1: "\<not> probeSucceeds localUpNet n (backendUrls ! 1)"
  by (simp add: probeSucceeds_def localUpNet_def backendUrls_def probeRequest_lit_eq)

lemma localUp2: "probeSucceeds localUpNet n (backendUrls ! 2)"
  by (simp add: probeSucceeds_def localUpNet_def backendUrls_def probeRequest_lit_eq ok_okResponse)

lemma localUp3: "probeSucceeds localUpNet n (backendUrls ! 3)"
  by (simp add: probeSucceeds_def localUpNet_def backendUrls_def probeRequest_lit_eq ok_okResponse)

lemma less_two: "j < (2::nat) \<longleftrightarrow> j = 0 \<or> j = 1"
  by auto

lemma trim_hello: "trim (lit ''  hello '') = lit ''hello''"
  by (simp add: trim_def lit_def isWhiteSpace_def)

lemma trim_blank: "trim (lit ''   '' @ [10, 9]) = []"
  by (simp add: trim_def lit_def isWhiteSpace_def)

lemma trigger_sample: "spec_matchesTrigger (lit ''BREAKING: a secret!'')"
  using sample_hasEmotionalWords by (simp only: hasEmotionalWords_iff)

lemma caps_sample: "spec_hasCapsRun (lit ''BREAKING: a secret!'')"
  using sample_hasAllCaps by (simp only: hasAllCaps_iff)

lemma no_trigger_hello: "\<not> spec_matchesTrigger (lit ''hello'')"
proof -
  have "\<not> hasEmotionalWords (lit ''hello'')" by code_simp
  then show ?thesis unfolding hasEmotionalWords_iff .
qed

lemma nows_differ: "sampleNow \<noteq> laterNow"
  by (simp add: sampleNow_def laterNow_def)

lemma connected_facts:
  "trim (contentInput_value connectedPage) = lit ''hello''"
  "activeBackendUrl connectedPage = Some (lit ''http://localhost:8000'')"
  "fetched connectedPage = []" "displayed connectedPage = []" "notifications connectedPage = []"
  by (simp_all add: connectedPage_def loadedPage_def trim_hello)

lemma lit_nonempty: "lit ''hello'' \<noteq> []" "lit ''http://localhost:8000'' \<noteq> []"
  by (simp_all add: lit_def)

lemma blank_facts:
  "trim (contentInput_value blankInputPage) = []"
  "fetched blankInputPage = []" "displayed blankInputPage = []"
  by (simp_all add: blankInputPage_def loadedPage_def trim_blank)

lemma demo_report_high:
  "path [Key ''analysis_summary'', Key ''risk_level''] (getDemoAnalysis now demoContent) = Some (str ''HIGH'')
   \<and> path [Key ''recommendations'', Key ''share_decision''] (getDemoAnalysis now demoContent)
       = Some (str ''AVOID_SHARING'')"
  using riskScore_demoContent
  by (simp add: getDemoAnalysis_def Let_def riskLevel_def)

section \<open>The claims\<close>

text \<open>
  Claim C1, as amended. Let the POST to \<open>url/analyze\<close> resolve with a success status.
  If \<open>response.json()\<close> rejects, \<open>analyzeContent\<close> hands the synthesized report for the
  content to the renderer and shows the demo-mode notice; if it yields a value, that value
  is handed to the renderer as it is, with no schema check and no notice. In both cases
  the error section is shown only when the renderer throws.
\<close>

theorem C1_malformed_success:
  assumes "trim (contentInput_value s) = content" "content \<noteq> []"
    and "activeBackendUrl s = Some url" "url \<noteq> []"
    and "net (length (fetched s)) (analyzeRequest url content) = Resolved resp" "ok resp"
  shows "case jsonBody resp of
           Inl e \<Rightarrow>
             displayed (analyzeContent render net now s) = displayed s @ [getDemoAnalysis now content]
             \<and> notifications (analyzeContent render net now s)
                 = notifications s @ [lit ''Using demo mode - backend temporarily unavailable'']
             \<and> (errorSection_hidden (analyzeContent render net now s)
                  \<longleftrightarrow> render (getDemoAnalysis now content) = None)
         | Inr v \<Rightarrow>
             displayed (analyzeContent render net now s) = displayed s @ [v]
             \<and> notifications (analyzeContent render net now s) = notifications s
             \<and> (errorSection_hidden (analyzeContent render net now s) \<longleftrightarrow> render v = None)"
proof -
  let ?s1 = "(showLoading True s)\<lparr>resultsSection_hidden := True, errorSection_hidden := True\<rparr>"
  have s1: "fetched ?s1 = fetched s" "displayed ?s1 = displayed s" "notifications ?s1 = notifications s"
    "errorSection_hidden ?s1"
    by (simp_all add: showLoading_def)
  show ?thesis
  proof (cases "jsonBody resp")
    case (Inl e)
    with assms(5,6) have "case net (length (fetched ?s1)) (analyzeRequest url content) of
             Rejected e \<Rightarrow> True
           | Resolved resp \<Rightarrow> \<not> ok resp \<or> (case jsonBody resp of Inl e \<Rightarrow> True | Inr v \<Rightarrow> False)"
      by (simp add: s1)
    then have live: "liveAnalysis net now url content ?s1 =
       (getDemoAnalysis now content,
        ?s1\<lparr>fetched := fetched ?s1 @ [analyzeRequest url content],
          notifications := notifications ?s1 @ [lit ''Using demo mode - backend temporarily unavailable'']\<rparr>)"
      by (rule liveAnalysis_fallback)
    show ?thesis
      unfolding analyzeContent_live [OF assms(1-4)] live
      using Inl by (simp add: after_display showLoading_def)
  next
    case (Inr v)
    with assms(5,6) have live: "liveAnalysis net now url content ?s1 =
        (v, ?s1\<lparr>fetched := fetched ?s1 @ [analyzeRequest url content]\<rparr>)"
      by (intro liveAnalysis_parsed) (simp_all add: s1)
    show ?thesis
      unfolding analyzeContent_live [OF assms(1-4)] live
      using Inr by (simp add: after_display showLoading_def)
  qed
qed

theorem C1_malformed_success_witness:
  "ok htmlResponse \<and> jsonBody htmlResponse = Inl (lit ''Unexpected token < in JSON at position 0'')
   \<and> displayed (analyzeContent quietRenderer htmlBodyNet sampleNow connectedPage)
       = [getDemoAnalysis sampleNow (lit ''hello'')]
   \<and> errorSection_hidden (analyzeContent quietRenderer htmlBodyNet sampleNow connectedPage)
   \<and> ok okResponse \<and> jsonBody okResponse = Inr (JObj [])
   \<and> displayed (analyzeContent quietRenderer emptyObjectNet sampleNow connectedPage) = [JObj []]
   \<and> notifications (analyzeContent quietRenderer emptyObjectNet sampleNow connectedPage) = []
   \<and> errorSection_hidden (analyzeContent quietRenderer emptyObjectNet sampleNow connectedPage)"
proof -
  have h: "ok htmlResponse" by (simp add: ok_def htmlResponse_def)
  have hb: "jsonBody htmlResponse = Inl (lit ''Unexpected token < in JSON at position 0'')"
    by (simp add: htmlResponse_def)
  have ob: "jsonBody okResponse = Inr (JObj [])" by (simp add: okResponse_def)
  have a: "htmlBodyNet (length (fetched connectedPage))
             (analyzeRequest (lit ''http://localhost:8000'') (lit ''hello'')) = Resolved htmlResponse"
    by (simp add: htmlBodyNet_def)
  have b: "emptyObjectNet (length (fetched connectedPage))
             (analyzeRequest (lit ''http://localhost:8000'') (lit ''hello'')) = Resolved okResponse"
    by (simp add: emptyObjectNet_def)
  from C1_malformed_success [where s = connectedPage and content = "lit ''hello''"
      and url = "lit ''http://localhost:8000''" and net = htmlBodyNet and resp = htmlResponse
      and render = quietRenderer and now = sampleNow]
    C1_malformed_success [where s = connectedPage and content = "lit ''hello''"
      and url = "lit ''http://localhost:8000''" and net = emptyObjectNet and resp = okResponse
      and render = quietRenderer and now = sampleNow]
    a b h hb ob ok_okResponse connected_facts lit_nonempty
  show ?thesis by (simp add: quietRenderer_def)
qed

text \<open>
  The claim as first written fails: a success response whose body is a page of markup
  makes \<open>response.json()\<close> reject inside the inner \<open>try\<close>, and the \<open>catch\<close> substitutes
  the synthesized report, with the notice and without any error shown.
\<close>

theorem C1_silent_downgrade_counterexample:
  "ok htmlResponse
   \<and> jsonBody htmlResponse = Inl (lit ''Unexpected token < in JSON at position 0'')
   \<and> fetched (analyzeContent quietRenderer htmlBodyNet sampleNow connectedPage)
       = [analyzeRequest (lit ''http://localhost:8000'') (lit ''hello'')]
   \<and> displayed (analyzeContent quietRenderer htmlBodyNet sampleNow connectedPage)
       = [getDemoAnalysis sampleNow (lit ''hello'')]
   \<and> notifications (analyzeContent quietRenderer htmlBodyNet sampleNow connectedPage)
       = [lit ''Using demo mode - backend temporarily unavailable'']
   \<and> errorSection_hidden (analyzeContent quietRenderer htmlBodyNet sampleNow connectedPage)
   \<and> errorMessage_textContent (analyzeContent quietRenderer htmlBodyNet sampleNow connectedPage) = []"
proof -
  let ?s1 = "(showLoading True connectedPage)\<lparr>resultsSection_hidden := True, errorSection_hidden := True\<rparr>"
  have h: "ok htmlResponse" by (simp add: ok_def htmlResponse_def)
  have hb: "jsonBody htmlResponse = Inl (lit ''Unexpected token < in JSON at position 0'')"
    by (simp add: htmlResponse_def)
  have "case htmlBodyNet (length (fetched ?s1))
               (analyzeRequest (lit ''http://localhost:8000'') (lit ''hello'')) of
          Rejected e \<Rightarrow> True
        | Resolved resp \<Rightarrow> \<not> ok resp \<or> (case jsonBody resp of Inl e \<Rightarrow> True | Inr v \<Rightarrow> False)"
    by (simp add: htmlBodyNet_def hb)
  then have live: "liveAnalysis htmlBodyNet sampleNow (lit ''http://localhost:8000'') (lit ''hello'') ?s1 =
     (getDemoAnalysis sampleNow (lit ''hello''),
      ?s1\<lparr>fetched := fetched ?s1 @ [analyzeRequest (lit ''http://localhost:8000'') (lit ''hello'')],
        notifications := notifications ?s1 @ [lit ''Using demo mode - backend temporarily unavailable'']\<rparr>)"
    by (rule liveAnalysis_fallback)
  have m: "errorMessage_textContent (analyzeContent quietRenderer htmlBodyNet sampleNow connectedPage) = []"
    unfolding analyzeContent_live [where s = connectedPage and content = "lit ''hello''"
        and url = "lit ''http://localhost:8000''", OF connected_facts(1) lit_nonempty(1) connected_facts(2) lit_nonempty(2)] live
    by (simp add: displayReport_def quietRenderer_def showLoading_def connectedPage_def loadedPage_def)
  have r: "fetched (analyzeContent quietRenderer htmlBodyNet sampleNow connectedPage)
       = [analyzeRequest (lit ''http://localhost:8000'') (lit ''hello'')]
   \<and> displayed (analyzeContent quietRenderer htmlBodyNet sampleNow connectedPage)
       = [getDemoAnalysis sampleNow (lit ''hello'')]
   \<and> notifications (analyzeContent quietRenderer htmlBodyNet sampleNow connectedPage)
       = [lit ''Using demo mode - backend temporarily unavailable'']
   \<and> errorSection_hidden (analyzeContent quietRenderer htmlBodyNet sampleNow connectedPage)"
    unfolding analyzeContent_live [where s = connectedPage and content = "lit ''hello''"
        and url = "lit ''http://localhost:8000''", OF connected_facts(1) lit_nonempty(1) connected_facts(2) lit_nonempty(2)] live
    by (simp add: after_display showLoading_def connected_facts quietRenderer_def)
  from h hb m r show ?thesis by blast
qed

text \<open>
  Claim C2. Run from a page whose \<open>activeBackendUrl\<close> is still \<open>null\<close>, the resolver
  probes the candidates in list order. If candidate \<open>i\<close> is the first whose probe
  succeeds, it becomes the active backend, exactly the probes of candidates \<open>0..i\<close> have
  been sent, and the status shows connected. If no probe succeeds, the active backend is
  none, every candidate has been probed once, in order, and the status shows offline.
\<close>

theorem C2_resolver:
  assumes "activeBackendUrl s = None"
  shows "(\<forall>i. i < length urls \<and> probeSucceeds net (length (fetched s) + i) (urls ! i)
            \<and> (\<forall>j < i. \<not> probeSucceeds net (length (fetched s) + j) (urls ! j)) \<longrightarrow>
            activeBackendUrl (checkBackendConnection net urls s) = Some (urls ! i)
          \<and> fetched (checkBackendConnection net urls s)
              = fetched s @ map probeRequest (take (Suc i) urls)
          \<and> statusText_textContent (checkBackendConnection net urls s) = lit ''Connected to backend''
          \<and> statusIcon_className (checkBackendConnection net urls s) = lit ''fas fa-circle text-success'')
       \<and> ((\<forall>j < length urls. \<not> probeSucceeds net (length (fetched s) + j) (urls ! j)) \<longrightarrow>
            activeBackendUrl (checkBackendConnection net urls s) = None
          \<and> fetched (checkBackendConnection net urls s) = fetched s @ map probeRequest urls
          \<and> statusText_textContent (checkBackendConnection net urls s)
              = lit ''Backend offline - Demo mode only''
          \<and> statusIcon_className (checkBackendConnection net urls s) = lit ''fas fa-circle text-error'')"
proof (intro conjI allI impI)
  let ?s0 = "s\<lparr>statusText_textContent := lit ''Checking backend connection...'',
                statusIcon_className := lit ''fas fa-circle text-warning''\<rparr>"
  have f: "fetched ?s0 = fetched s" by simp
  {
    fix i
    assume h: "i < length urls \<and> probeSucceeds net (length (fetched s) + i) (urls ! i)
            \<and> (\<forall>j < i. \<not> probeSucceeds net (length (fetched s) + j) (urls ! j))"
    then have "probeLoop net urls ?s0 =
       ?s0\<lparr>fetched := fetched ?s0 @ map probeRequest (take (Suc i) urls),
         activeBackendUrl := Some (urls ! i),
         statusText_textContent := lit ''Connected to backend'',
         statusIcon_className := lit ''fas fa-circle text-success''\<rparr>"
      using probeLoop_first [of i urls net ?s0] by simp
    then have e: "checkBackendConnection net urls s =
       ?s0\<lparr>fetched := fetched ?s0 @ map probeRequest (take (Suc i) urls),
         activeBackendUrl := Some (urls ! i),
         statusText_textContent := lit ''Connected to backend'',
         statusIcon_className := lit ''fas fa-circle text-success''\<rparr>"
      by (simp only: checkBackendConnection_def)
    show "activeBackendUrl (checkBackendConnection net urls s) = Some (urls ! i)"
      by (simp add: e)
    show "fetched (checkBackendConnection net urls s) = fetched s @ map probeRequest (take (Suc i) urls)"
      by (simp add: e)
    show "statusText_textContent (checkBackendConnection net urls s) = lit ''Connected to backend''"
      by (simp add: e)
    show "statusIcon_className (checkBackendConnection net urls s) = lit ''fas fa-circle text-success''"
      by (simp add: e)
  }
  {
    assume h: "\<forall>j < length urls. \<not> probeSucceeds net (length (fetched s) + j) (urls ! j)"
    then have "probeLoop net urls ?s0 =
       ?s0\<lparr>fetched := fetched ?s0 @ map probeRequest urls,
         statusText_textContent := lit ''Backend offline - Demo mode only'',
         statusIcon_className := lit ''fas fa-circle text-error''\<rparr>"
      using probeLoop_none [of urls net ?s0] by simp
    then have e: "checkBackendConnection net urls s =
       ?s0\<lparr>fetched := fetched ?s0 @ map probeRequest urls,
         statusText_textContent := lit ''Backend offline - Demo mode only'',
         statusIcon_className := lit ''fas fa-circle text-error''\<rparr>"
      by (simp only: checkBackendConnection_def)
    show "activeBackendUrl (checkBackendConnection net urls s) = None"
      using assms by (simp add: e)
    show "fetched (checkBackendConnection net urls s) = fetched s @ map probeRequest urls"
      by (simp add: e)
    show "statusText_textContent (checkBackendConnection net urls s) = lit ''Backend offline - Demo mode only''"
      by (simp add: e)
    show "statusIcon_className (checkBackendConnection net urls s) = lit ''fas fa-circle text-error''"
      by (simp add: e)
  }
qed

theorem C2_resolver_witness:
  "activeBackendUrl loadedPage = None
   \<and> probeSucceeds localUpNet 2 (backendUrls ! 2)
   \<and> probeSucceeds localUpNet 3 (backendUrls ! 3)
   \<and> activeBackendUrl (checkBackendConnection localUpNet backendUrls loadedPage)
        = Some (lit ''http://localhost:8000'')
   \<and> length (fetched (checkBackendConnection localUpNet backendUrls loadedPage)) = 3
   \<and> activeBackendUrl (checkBackendConnection offlineNet backendUrls loadedPage) = None
   \<and> length (fetched (checkBackendConnection offlineNet backendUrls loadedPage)) = 4
   \<and> statusText_textContent (checkBackendConnection offlineNet backendUrls loadedPage)
        = lit ''Backend offline - Demo mode only''"
proof -
  have n: "activeBackendUrl loadedPage = None" by (simp add: loadedPage_def)
  have f: "fetched loadedPage = []" by (simp add: loadedPage_def)
  have l: "length backendUrls = 4" by (simp add: backendUrls_def)
  have before: "\<forall>j < 2. \<not> probeSucceeds localUpNet (length (fetched loadedPage) + j) (backendUrls ! j)"
    using localUp0 localUp1 by (auto simp: less_two)
  have none: "\<forall>j < length backendUrls.
      \<not> probeSucceeds offlineNet (length (fetched loadedPage) + j) (backendUrls ! j)"
    by (simp add: probeSucceeds_def offlineNet_def)
  have up: "activeBackendUrl (checkBackendConnection localUpNet backendUrls loadedPage) = Some (backendUrls ! 2)
     \<and> fetched (checkBackendConnection localUpNet backendUrls loadedPage)
         = fetched loadedPage @ map probeRequest (take (Suc 2) backendUrls)"
    using C2_resolver [OF n, of backendUrls localUpNet] before localUp2 [of "length (fetched loadedPage) + 2"] l
    by (metis less_add_same_cancel2 numeral_Bit0 zero_less_numeral)
  have down: "activeBackendUrl (checkBackendConnection offlineNet backendUrls loadedPage) = None
     \<and> fetched (checkBackendConnection offlineNet backendUrls loadedPage)
         = fetched loadedPage @ map probeRequest backendUrls
     \<and> statusText_textContent (checkBackendConnection offlineNet backendUrls loadedPage)
        = lit ''Backend offline - Demo mode only''"
    using C2_resolver [OF n, of backendUrls offlineNet] none by blast
  have b2: "backendUrls ! 2 = lit ''http://localhost:8000''" by (simp add: backendUrls_def)
  from up down n localUp2 localUp3 show ?thesis by (simp add: f l b2)
qed

text \<open>
  Claim C3. For every input string the raw risk score is 30, plus 25 if the content
  matches a trigger word case-insensitively, plus 20 if it contains a run of four or more
  capitals, plus 10 if it contains an exclamation mark (code unit 33), minus 10 if it is
  shorter than 100 units; the reported \<open>risk_score\<close> is the minimum of the raw score and
  95, with no lower clamp. The conditions are those of the specification
  (\<open>spec_matchesTrigger\<close>, \<open>spec_hasCapsRun\<close>), not the searches of the code.
\<close>

theorem C3_riskScore:
  "riskScore content =
      30 + (if spec_matchesTrigger content then 25 else 0)
         + (if spec_hasCapsRun content then 20 else 0)
         + (if 33 \<in> set content then 10 else 0)
         - (if length content < 100 then 10 else 0)
   \<and> path [Key ''analysis_summary'', Key ''risk_score''] (getDemoAnalysis now content)
       = Some (JNum (min (riskScore content) 95))"
  by (simp add: riskScore_sum hasEmotionalWords_iff hasAllCaps_iff includes_bang gda_summary)

theorem C3_riskScore_witness:
  "spec_matchesTrigger (lit ''BREAKING: a secret!'')
   \<and> spec_hasCapsRun (lit ''BREAKING: a secret!'')
   \<and> 33 \<in> set (lit ''BREAKING: a secret!'')
   \<and> length (lit ''BREAKING: a secret!'') < 100
   \<and> riskScore (lit ''BREAKING: a secret!'') = 75
   \<and> path [Key ''analysis_summary'', Key ''risk_score'']
        (getDemoAnalysis sampleNow (lit ''BREAKING: a secret!'')) = Some (JNum 75)"
proof -
  have b: "33 \<in> set (lit ''BREAKING: a secret!'')" by (simp add: lit_def)
  have l: "length (lit ''BREAKING: a secret!'') < 100" by (simp add: lit_def)
  from C3_riskScore [of "lit ''BREAKING: a secret!''" sampleNow] trigger_sample caps_sample b l
  show ?thesis by simp
qed

text \<open>
  Claim C4. The \<open>risk_level\<close> of the synthesized report is HIGH above 70, MEDIUM above
  50 and LOW otherwise; \<open>credibility_rating\<close> is QUESTIONABLE exactly above 50 and
  RELIABLE otherwise; so a raw score in (50, 70] gives MEDIUM together with QUESTIONABLE.
\<close>

theorem C4_levels:
  "path [Key ''analysis_summary'', Key ''risk_level''] (getDemoAnalysis now content)
      = Some (str (if riskScore content > 70 then ''HIGH''
                   else if riskScore content > 50 then ''MEDIUM'' else ''LOW''))
   \<and> path [Key ''analysis_summary'', Key ''credibility_rating''] (getDemoAnalysis now content)
      = Some (str (if riskScore content > 50 then ''QUESTIONABLE'' else ''RELIABLE''))
   \<and> (50 < riskScore content \<and> riskScore content \<le> 70 \<longrightarrow>
        path [Key ''analysis_summary'', Key ''risk_level''] (getDemoAnalysis now content)
          = Some (str ''MEDIUM'')
        \<and> path [Key ''analysis_summary'', Key ''credibility_rating''] (getDemoAnalysis now content)
          = Some (str ''QUESTIONABLE''))"
  by (simp add: gda_summary riskLevel_def credibility_def)

theorem C4_levels_witness:
  "50 < riskScore (lit ''BREAKING news'') \<and> riskScore (lit ''BREAKING news'') \<le> 70
   \<and> path [Key ''analysis_summary'', Key ''risk_level'']
        (getDemoAnalysis sampleNow (lit ''BREAKING news'')) = Some (str ''MEDIUM'')
   \<and> path [Key ''analysis_summary'', Key ''credibility_rating'']
        (getDemoAnalysis sampleNow (lit ''BREAKING news'')) = Some (str ''QUESTIONABLE'')"
  using C4_levels [of sampleNow "lit ''BREAKING news''"] riskScore_breaking_news by simp

text \<open>
  Claim C5. Let \<open>content\<close> be the trimmed, non-empty input and let a backend be active.
  If the POST to \<open>url/analyze\<close> rejects or resolves with a status outside 200..299, then
  \<open>analyzeContent\<close> sends that one request and hands to the renderer the synthesized
  report for \<open>content\<close>, which equals any other synthesis of \<open>content\<close> up to the
  timestamp, and shows the notice that demo mode is used; no error is shown unless the
  renderer throws.
\<close>

theorem C5_fallback:
  assumes "trim (contentInput_value s) = content" "content \<noteq> []"
    and "activeBackendUrl s = Some url" "url \<noteq> []"
    and "case net (length (fetched s)) (analyzeRequest url content) of
           Rejected e \<Rightarrow> True | Resolved resp \<Rightarrow> \<not> ok resp"
  shows "fetched (analyzeContent render net now s) = fetched s @ [analyzeRequest url content]
       \<and> displayed (analyzeContent render net now s) = displayed s @ [getDemoAnalysis now content]
       \<and> ignoringTimestamp (getDemoAnalysis now content)
           = ignoringTimestamp (getDemoAnalysis now' content)
       \<and> notifications (analyzeContent render net now s)
           = notifications s @ [lit ''Using demo mode - backend temporarily unavailable'']
       \<and> (errorSection_hidden (analyzeContent render net now s)
            \<longleftrightarrow> render (getDemoAnalysis now content) = None)"
proof -
  let ?s1 = "(showLoading True s)\<lparr>resultsSection_hidden := True, errorSection_hidden := True\<rparr>"
  have s1: "fetched ?s1 = fetched s" "displayed ?s1 = displayed s" "notifications ?s1 = notifications s"
    by (simp_all add: showLoading_def)
  from assms(5) have "case net (length (fetched ?s1)) (analyzeRequest url content) of
             Rejected e \<Rightarrow> True
           | Resolved resp \<Rightarrow> \<not> ok resp \<or> (case jsonBody resp of Inl e \<Rightarrow> True | Inr v \<Rightarrow> False)"
    by (simp add: s1 split: fetch_outcome.splits)
  then have live: "liveAnalysis net now url content ?s1 =
     (getDemoAnalysis now content,
      ?s1\<lparr>fetched := fetched ?s1 @ [analyzeRequest url content],
        notifications := notifications ?s1 @ [lit ''Using demo mode - backend temporarily unavailable'']\<rparr>)"
    by (rule liveAnalysis_fallback)
  show ?thesis
    unfolding analyzeContent_live [OF assms(1-4)] live
    by (simp add: after_display showLoading_def ignoringTimestamp_gda [of now content now'])
qed

theorem C5_fallback_witness:
  "trim (contentInput_value connectedPage) = lit ''hello''
   \<and> \<not> ok errorResponse
   \<and> displayed (analyzeContent quietRenderer offlineNet sampleNow connectedPage)
       = [getDemoAnalysis sampleNow (lit ''hello'')]
   \<and> displayed (analyzeContent quietRenderer errorStatusNet sampleNow connectedPage)
       = [getDemoAnalysis sampleNow (lit ''hello'')]
   \<and> fetched (analyzeContent quietRenderer errorStatusNet sampleNow connectedPage)
       = [analyzeRequest (lit ''http://localhost:8000'') (lit ''hello'')]
   \<and> notifications (analyzeContent quietRenderer errorStatusNet sampleNow connectedPage)
       = [lit ''Using demo mode - backend temporarily unavailable'']"
proof -
  have e: "\<not> ok errorResponse" by (simp add: ok_def errorResponse_def)
  have a: "case offlineNet (length (fetched connectedPage))
                 (analyzeRequest (lit ''http://localhost:8000'') (lit ''hello'')) of
             Rejected e \<Rightarrow> True | Resolved resp \<Rightarrow> \<not> ok resp"
    by (simp add: offlineNet_def)
  have b: "case errorStatusNet (length (fetched connectedPage))
                 (analyzeRequest (lit ''http://localhost:8000'') (lit ''hello'')) of
             Rejected e \<Rightarrow> True | Resolved resp \<Rightarrow> \<not> ok resp"
    using e by (simp add: errorStatusNet_def)
  from C5_fallback [where s = connectedPage and content = "lit ''hello''"
      and url = "lit ''http://localhost:8000''" and net = offlineNet and render = quietRenderer
      and now = sampleNow and now' = laterNow]
    C5_fallback [where s = connectedPage and content = "lit ''hello''"
      and url = "lit ''http://localhost:8000''" and net = errorStatusNet and render = quietRenderer
      and now = sampleNow and now' = laterNow]
    a b e connected_facts lit_nonempty
  show ?thesis by simp
qed

text \<open>
  Claim C6. When the input is empty after trimming, \<open>analyzeContent\<close> sends no request,
  renders no report and no notice, and shows the validation message in the error section.
\<close>

theorem C6_empty_input:
  assumes "trim (contentInput_value s) = []"
  shows "fetched (analyzeContent render net now s) = fetched s
       \<and> displayed (analyzeContent render net now s) = displayed s
       \<and> notifications (analyzeContent render net now s) = notifications s
       \<and> errorMessage_textContent (analyzeContent render net now s)
           = lit ''Please enter some content to analyze''
       \<and> \<not> errorSection_hidden (analyzeContent render net now s)"
  using assms by (simp add: analyzeContent_def showError_def)

theorem C6_empty_input_witness:
  "contentInput_value blankInputPage \<noteq> []
   \<and> trim (contentInput_value blankInputPage) = []
   \<and> activeBackendUrl blankInputPage = Some (lit ''http://localhost:8000'')
   \<and> fetched (analyzeContent quietRenderer emptyObjectNet sampleNow blankInputPage) = []
   \<and> displayed (analyzeContent quietRenderer emptyObjectNet sampleNow blankInputPage) = []
   \<and> errorMessage_textContent (analyzeContent quietRenderer emptyObjectNet sampleNow blankInputPage)
       = lit ''Please enter some content to analyze''
   \<and> \<not> errorSection_hidden (analyzeContent quietRenderer emptyObjectNet sampleNow blankInputPage)"
proof -
  have n: "contentInput_value blankInputPage \<noteq> []"
    by (simp add: blankInputPage_def loadedPage_def lit_def)
  have u: "activeBackendUrl blankInputPage = Some (lit ''http://localhost:8000'')"
    by (simp add: blankInputPage_def loadedPage_def)
  from C6_empty_input [OF blank_facts(1), of quietRenderer emptyObjectNet sampleNow] n u blank_facts
  show ?thesis by simp
qed

text \<open>
  Claim C7. Two calls of the synthesizer on the same content, at whatever two times,
  give reports that are equal once \<open>metadata.analysis_timestamp\<close> is set aside; in
  particular \<open>risk_score\<close>, \<open>risk_level\<close>, \<open>credibility_rating\<close> and every list field
  agree.
\<close>

theorem C7_deterministic:
  "ignoringTimestamp (getDemoAnalysis now1 content) = ignoringTimestamp (getDemoAnalysis now2 content)
   \<and> path [Key ''analysis_summary'', Key ''risk_score''] (getDemoAnalysis now1 content)
       = path [Key ''analysis_summary'', Key ''risk_score''] (getDemoAnalysis now2 content)
   \<and> path [Key ''analysis_summary'', Key ''risk_level''] (getDemoAnalysis now1 content)
       = path [Key ''analysis_summary'', Key ''risk_level''] (getDemoAnalysis now2 content)
   \<and> path [Key ''analysis_summary'', Key ''credibility_rating''] (getDemoAnalysis now1 content)
       = path [Key ''analysis_summary'', Key ''credibility_rating''] (getDemoAnalysis now2 content)
   \<and> (\<forall>p \<in> set listFields.
         path p (getDemoAnalysis now1 content) = path p (getDemoAnalysis now2 content))"
  by (simp add: getDemoAnalysis_def Let_def ignoringTimestamp_def dropTimestamp_def listFields_def)

theorem C7_deterministic_witness:
  "sampleNow \<noteq> laterNow
   \<and> [Key ''detected_tactics''] \<in> set listFields
   \<and> ignoringTimestamp (getDemoAnalysis sampleNow demoContent)
       = ignoringTimestamp (getDemoAnalysis laterNow demoContent)
   \<and> path [Key ''detected_tactics''] (getDemoAnalysis sampleNow demoContent)
       = path [Key ''detected_tactics''] (getDemoAnalysis laterNow demoContent)
   \<and> path [Key ''metadata'', Key ''analysis_timestamp''] (getDemoAnalysis sampleNow demoContent)
       \<noteq> path [Key ''metadata'', Key ''analysis_timestamp''] (getDemoAnalysis laterNow demoContent)"
proof -
  have m: "[Key ''detected_tactics''] \<in> set listFields" by (simp add: listFields_def)
  have d: "path [Key ''metadata'', Key ''analysis_timestamp''] (getDemoAnalysis sampleNow demoContent)
       \<noteq> path [Key ''metadata'', Key ''analysis_timestamp''] (getDemoAnalysis laterNow demoContent)"
    using nows_differ by (simp add: getDemoAnalysis_def Let_def)
  from C7_deterministic [of sampleNow demoContent laterNow] m d nows_differ
  show ?thesis by blast
qed

text \<open>
  Claim C8. When the trigger vocabulary matches, \<open>detected_tactics\<close> has the two entries
  Emotional Manipulation and Urgency Creation, \<open>fact_check_flags\<close> has exactly one entry,
  and \<open>example_from_content\<close> of the first entry is the first 100 units of the input
  followed by three dots; otherwise \<open>detected_tactics\<close> is the single Demo Analysis entry
  and \<open>fact_check_flags\<close> is empty. \<open>cognitive_biases\<close> always has the two entries FOMO
  and Authority Bias, the same value for every input and every clock.
\<close>

theorem C8_population:
  "(spec_matchesTrigger content \<longrightarrow>
       map_option (map (field ''tactic_name'')) (elems [Key ''detected_tactics''] (getDemoAnalysis now content))
         = Some [Some (str ''Emotional Manipulation''), Some (str ''Urgency Creation'')]
     \<and> map_option length (elems [Key ''fact_check_flags''] (getDemoAnalysis now content)) = Some 1
     \<and> path [Key ''detected_tactics'', Index 0, Key ''example_from_content''] (getDemoAnalysis now content)
         = Some (JStr (take 100 content @ lit ''...'')))
   \<and> (\<not> spec_matchesTrigger content \<longrightarrow>
       map_option (map (field ''tactic_name'')) (elems [Key ''detected_tactics''] (getDemoAnalysis now content))
         = Some [Some (str ''Demo Analysis'')]
     \<and> elems [Key ''fact_check_flags''] (getDemoAnalysis now content) = Some [])
   \<and> map_option (map (field ''bias_name'')) (elems [Key ''cognitive_biases''] (getDemoAnalysis now content))
         = Some [Some (str ''Fear of Missing Out (FOMO)''), Some (str ''Authority Bias'')]
   \<and> path [Key ''cognitive_biases''] (getDemoAnalysis now content)
         = path [Key ''cognitive_biases''] (getDemoAnalysis now' content')"
  by (simp add: getDemoAnalysis_def Let_def elems_def hasEmotionalWords_iff [symmetric])

theorem C8_population_witness:
  "spec_matchesTrigger (lit ''BREAKING: a secret!'')
   \<and> map_option (map (field ''tactic_name''))
        (elems [Key ''detected_tactics''] (getDemoAnalysis sampleNow (lit ''BREAKING: a secret!'')))
        = Some [Some (str ''Emotional Manipulation''), Some (str ''Urgency Creation'')]
   \<and> path [Key ''detected_tactics'', Index 0, Key ''example_from_content'']
        (getDemoAnalysis sampleNow (lit ''BREAKING: a secret!''))
        = Some (str ''BREAKING: a secret!...'')
   \<and> \<not> spec_matchesTrigger (lit ''hello'')
   \<and> map_option (map (field ''tactic_name''))
        (elems [Key ''detected_tactics''] (getDemoAnalysis sampleNow (lit ''hello'')))
        = Some [Some (str ''Demo Analysis'')]
   \<and> elems [Key ''fact_check_flags''] (getDemoAnalysis sampleNow (lit ''hello'')) = Some []"
proof -
  have t: "take 100 (lit ''BREAKING: a secret!'') @ lit ''...'' = lit ''BREAKING: a secret!...''"
    by (simp add: lit_def)
  from C8_population [of "lit ''BREAKING: a secret!''" sampleNow sampleNow "[]"]
    C8_population [of "lit ''hello''" sampleNow sampleNow "[]"]
    trigger_sample no_trigger_hello t
  show ?thesis by simp
qed

text \<open>
  Claim C9. For every input the synthesized report conforms to the Report schema; the
  four required groups are present as objects and each of the six list-valued fields is
  present as an array, possibly empty.
\<close>

theorem C9_schema:
  "spec_Report (getDemoAnalysis now content)
   \<and> (\<forall>g \<in> set requiredGroups. isObject (field g (getDemoAnalysis now content)))
   \<and> (\<forall>p \<in> set listFields. isArray (path p (getDemoAnalysis now content)))"
proof (intro conjI)
  show "spec_Report (getDemoAnalysis now content)"
    using gda_summary_conforms [of content]
    by (simp add: getDemoAnalysis_def Let_def spec_Report_def spec_isGroup_def spec_isListOf_def
        spec_Tactic_def spec_Bias_def spec_Flag_def spec_Insights_def spec_Recommendations_def
        spec_Confidence_def spec_Metadata_def spec_isEnum_def spec_isIntIn_def spec_isInt_def
        spec_isString_def)
  show "\<forall>g \<in> set requiredGroups. isObject (field g (getDemoAnalysis now content))"
    by (simp add: getDemoAnalysis_def Let_def requiredGroups_def isObject_def)
  show "\<forall>p \<in> set listFields. isArray (path p (getDemoAnalysis now content))"
    by (simp add: getDemoAnalysis_def Let_def listFields_def isArray_def)
qed

theorem C9_schema_witness:
  "''recommendations'' \<in> set requiredGroups
   \<and> isObject (field ''recommendations'' (getDemoAnalysis sampleNow demoContent))
   \<and> [Key ''fact_check_flags''] \<in> set listFields
   \<and> isArray (path [Key ''fact_check_flags''] (getDemoAnalysis sampleNow (lit ''hello'')))
   \<and> elems [Key ''fact_check_flags''] (getDemoAnalysis sampleNow (lit ''hello'')) = Some []
   \<and> spec_Report (getDemoAnalysis sampleNow demoContent)"
proof -
  have g: "''recommendations'' \<in> set requiredGroups" by (simp add: requiredGroups_def)
  have m: "[Key ''fact_check_flags''] \<in> set listFields" by (simp add: listFields_def)
  have e: "elems [Key ''fact_check_flags''] (getDemoAnalysis sampleNow (lit ''hello'')) = Some []"
    using no_trigger_hello
    by (simp add: getDemoAnalysis_def Let_def elems_def hasEmotionalWords_iff)
  from C9_schema [of sampleNow demoContent] C9_schema [of sampleNow "lit ''hello''"] g m e
  show ?thesis by blast
qed

text \<open>
  Claim C10. The raw score is never below 20, and the reported \<open>risk_score\<close> lies in
  the closed interval from 20 to 95.
\<close>

theorem C10_range:
  "20 \<le> riskScore content
   \<and> path [Key ''analysis_summary'', Key ''risk_score''] (getDemoAnalysis now content)
       = Some (JNum (min (riskScore content) 95))
   \<and> 20 \<le> min (riskScore content) 95 \<and> min (riskScore content) 95 \<le> 95"
  using riskScore_bounds [of content] by (simp add: gda_summary)

theorem C10_range_witness:
  "riskScore [] = 20
   \<and> path [Key ''analysis_summary'', Key ''risk_score''] (getDemoAnalysis sampleNow []) = Some (JNum 20)
   \<and> riskScore demoContent = 85
   \<and> path [Key ''analysis_summary'', Key ''risk_score''] (getDemoAnalysis sampleNow demoContent)
        = Some (JNum 85)"
  using C10_range [of "[]" sampleNow] C10_range [of demoContent sampleNow] riskScore_demoContent riskScore_empty by simp

end
